theory Spec2Isabelle
  imports Main
begin

section \<open>Python values\<close>

text \<open>
  The raw input of both models is a deserialised JSON payload, typed \<open>dict[str, Any]\<close>
  in the source. Its values are modelled by the datatype below: \<open>None\<close>, booleans,
  integers, strings, lists and dictionaries. A dictionary is an association list read
  with \<open>map_of\<close> (the first binding of a key is the one a lookup sees), which also keeps
  the order of the keys of the dictionaries the serialisers build. Fractional numbers
  are left out: in every operation used here they behave as a non-string scalar such as
  an integer does (truthy unless zero, without a method \<open>get\<close>, not iterable).
\<close>

datatype pyval =
    PNone
  | PBool bool
  | PInt int
  | PStr string
  | PList "pyval list"
  | PDict "(string \<times> pyval) list"

text \<open>The exceptions that the modelled code can raise.\<close>

datatype error = AttributeError | TypeError | ValidationError

text \<open>Truth value testing (\<open>if x\<close>, \<open>not x\<close>, \<open>x or y\<close>).\<close>

fun truthy :: "pyval \<Rightarrow> bool" where
  "truthy PNone = False"
| "truthy (PBool b) = b"
| "truthy (PInt i) = (i \<noteq> 0)"
| "truthy (PStr s) = (s \<noteq> [])"
| "truthy (PList xs) = (xs \<noteq> [])"
| "truthy (PDict d) = (d \<noteq> [])"

definition py_or :: "pyval \<Rightarrow> pyval \<Rightarrow> pyval" where
  \<comment> \<open>\<open>a or b\<close>: the first operand if it is truthy, else the second.\<close>
  "py_or a b = (if truthy a then a else b)"

definition dict_get :: "(string \<times> pyval) list \<Rightarrow> string \<Rightarrow> pyval \<Rightarrow> pyval" where
  \<comment> \<open>\<open>d.get(k, default)\<close> on a dictionary.\<close>
  "dict_get d k dflt = (case map_of d k of None \<Rightarrow> dflt | Some v \<Rightarrow> v)"

fun py_get :: "pyval \<Rightarrow> string \<Rightarrow> pyval \<Rightarrow> error + pyval" where
  \<comment> \<open>\<open>x.get(k, default)\<close> on any value: only a dictionary has the method.\<close>
  "py_get (PDict d) k dflt = Inr (dict_get d k dflt)"
| "py_get _ k dflt = Inl AttributeError"

fun py_keys :: "pyval \<Rightarrow> error + string list" where
  \<comment> \<open>\<open>list(x.keys())\<close>.\<close>
  "py_keys (PDict d) = Inr (remdups (map fst d))"
| "py_keys _ = Inl AttributeError"

fun at_in :: "pyval \<Rightarrow> error + bool" where
  \<comment> \<open>\<open>"@" in x\<close>: substring test on a string, membership on a list, key membership on
      a dictionary; the other values are not iterable.\<close>
  "at_in (PStr s) = Inr (CHR ''@'' \<in> set s)"
| "at_in (PList xs) = Inr (PStr ''@'' \<in> set xs)"
| "at_in (PDict d) = Inr (map_of d ''@'' \<noteq> None)"
| "at_in _ = Inl TypeError"

definition then_do :: "error + 'a \<Rightarrow> ('a \<Rightarrow> error + 'b) \<Rightarrow> error + 'b" where
  \<comment> \<open>Sequencing: an exception raised by the first step is the result.\<close>
  "then_do m f = (case m of Inl e \<Rightarrow> Inl e | Inr x \<Rightarrow> f x)"

section \<open>The base model\<close>

text \<open>
  Both classes derive from \<open>ApiModel\<close>, a Pydantic model whose definition is not among
  the sources. Its constructor checks every keyword argument against the annotation of
  the field. A value that already has the annotated type is stored as it is, and
  \<open>None\<close> is stored in a field annotated \<open>... | None\<close>. What the constructor does with
  a value of another type (convert it or raise \<open>ValidationError\<close>) depends on the
  configuration of the base model, so it is a parameter of the embedding: \<open>str_of\<close> for
  the string fields and \<open>int_of\<close> for the integer field, each returning \<open>None\<close> where
  the value is rejected.
\<close>

record pydantic =
  str_of :: "pyval \<Rightarrow> string option"
  int_of :: "pyval \<Rightarrow> int option"

definition reject :: "pyval \<Rightarrow> 'a option" where
  "reject v = None"

definition strict :: pydantic where
  \<comment> \<open>The configuration that converts nothing.\<close>
  "strict = \<lparr>str_of = reject, int_of = reject\<rparr>"

fun validate_str :: "pydantic \<Rightarrow> pyval \<Rightarrow> error + string" where
  \<comment> \<open>A field annotated \<open>str\<close>.\<close>
  "validate_str cfg (PStr s) = Inr s"
| "validate_str cfg v = (case str_of cfg v of None \<Rightarrow> Inl ValidationError | Some s \<Rightarrow> Inr s)"

fun validate_opt_str :: "pydantic \<Rightarrow> pyval \<Rightarrow> error + string option" where
  \<comment> \<open>A field annotated \<open>str | None\<close>.\<close>
  "validate_opt_str cfg PNone = Inr None"
| "validate_opt_str cfg (PStr s) = Inr (Some s)"
| "validate_opt_str cfg v =
     (case str_of cfg v of None \<Rightarrow> Inl ValidationError | Some s \<Rightarrow> Inr (Some s))"

fun validate_opt_int :: "pydantic \<Rightarrow> pyval \<Rightarrow> error + int option" where
  \<comment> \<open>A field annotated \<open>int | None\<close>.\<close>
  "validate_opt_int cfg PNone = Inr None"
| "validate_opt_int cfg (PInt i) = Inr (Some i)"
| "validate_opt_int cfg v =
     (case int_of cfg v of None \<Rightarrow> Inl ValidationError | Some i \<Rightarrow> Inr (Some i))"

text \<open>A field read back as a Python value.\<close>

fun opt_str :: "string option \<Rightarrow> pyval" where
  "opt_str None = PNone"
| "opt_str (Some s) = PStr s"

fun opt_int :: "int option \<Rightarrow> pyval" where
  "opt_int None = PNone"
| "opt_int (Some i) = PInt i"

definition UNASSIGNED :: string where
  \<comment> \<open>Modelled from the spec: the constant \<open>UNASSIGNED\<close> of the module \<open>..constants\<close>,
      which is not among the sources; the spec gives the sentinel as "Unassigned".\<close>
  "UNASSIGNED = ''Unassigned''"

section \<open>ConfluenceUser\<close>

record ConfluenceUser =
  account_id :: "string option"
  username :: "string option"
  display_name :: string
  email :: "string option"
  profile_picture :: "string option"
  is_active :: bool
  locale' :: "string option"

definition ConfluenceUser_default :: ConfluenceUser where
  \<comment> \<open>\<open>cls()\<close>: every field at its declared default.\<close>
  "ConfluenceUser_default =
     \<lparr>account_id = None, username = None, display_name = UNASSIGNED, email = None,
      profile_picture = None, is_active = True, locale' = None\<rparr>"

definition ConfluenceUser_init ::
  "pydantic \<Rightarrow> pyval \<Rightarrow> pyval \<Rightarrow> pyval \<Rightarrow> pyval \<Rightarrow> pyval \<Rightarrow> bool \<Rightarrow> pyval
     \<Rightarrow> error + ConfluenceUser" where
  \<comment> \<open>\<open>cls(account_id=..., username=..., display_name=..., email=...,
      profile_picture=..., is_active=..., locale=...)\<close>; \<open>is_active\<close> is always passed
      a \<open>bool\<close>.\<close>
  "ConfluenceUser_init cfg a u d e p act l =
     then_do (validate_opt_str cfg a) (\<lambda>a'.
     then_do (validate_opt_str cfg u) (\<lambda>u'.
     then_do (validate_str cfg d) (\<lambda>d'.
     then_do (validate_opt_str cfg e) (\<lambda>e'.
     then_do (validate_opt_str cfg p) (\<lambda>p'.
     then_do (validate_opt_str cfg l) (\<lambda>l'.
       Inr \<lparr>account_id = a', username = u', display_name = d', email = e',
            profile_picture = p', is_active = act, locale' = l'\<rparr>))))))"

type_synonym warning = "string \<times> string"

definition name :: "ConfluenceUser \<Rightarrow> warning list \<Rightarrow> string \<times> warning list" where
  \<comment> \<open>The deprecated property: the warning goes to the warnings channel, modelled as
      the list of the warnings issued so far; then \<open>display_name\<close> is returned.\<close>
  "name self ws =
     (display_name self,
      ws @ [(''DeprecationWarning'',
             ''The 'name' property is deprecated. Use 'display_name' instead.'')])"

definition profile_pic_of :: "(string \<times> pyval) list \<Rightarrow> error + pyval" where
  \<comment> \<open>Lines 63 to 66.\<close>
  "profile_pic_of data =
     (let pic_data = dict_get data ''profilePicture'' PNone
      in if truthy pic_data then py_get pic_data ''path'' PNone else Inr PNone)"

definition email_of :: "(string \<times> pyval) list \<Rightarrow> error + pyval" where
  \<comment> \<open>Lines 69 to 75.\<close>
  "email_of data =
     (let email = py_or (dict_get data ''email'' PNone) (dict_get data ''emailAddress'' PNone)
      in if \<not> truthy email
         then (let username = dict_get data ''username'' (PStr '''')
               in then_do (at_in username) (\<lambda>b. Inr (if b then username else email)))
         else Inr email)"

definition username_of :: "(string \<times> pyval) list \<Rightarrow> pyval" where
  \<comment> \<open>Line 78.\<close>
  "username_of data = py_or (dict_get data ''username'' PNone) (dict_get data ''name'' PNone)"

definition ConfluenceUser_from_api_response ::
  "pydantic \<Rightarrow> pyval \<Rightarrow> (string \<times> pyval) list \<Rightarrow> error + ConfluenceUser" where
  \<comment> \<open>The third argument is \<open>**kwargs\<close>. The debug message is built before the logger is
      asked whether to emit it, so \<open>data.keys()\<close> is always evaluated.\<close>
  "ConfluenceUser_from_api_response cfg data kwargs =
     (if \<not> truthy data then Inr ConfluenceUser_default
      else then_do (py_keys data) (\<lambda>_.
        case data of
          PDict d \<Rightarrow>
            then_do (profile_pic_of d) (\<lambda>profile_pic.
            then_do (email_of d) (\<lambda>email.
              ConfluenceUser_init cfg
                (dict_get d ''accountId'' PNone)
                (username_of d)
                (dict_get d ''displayName'' (PStr UNASSIGNED))
                email
                profile_pic
                (dict_get d ''accountStatus'' PNone = PStr ''active'')
                (dict_get d ''locale'' PNone)))
        | _ \<Rightarrow> Inl AttributeError))"

definition ConfluenceUser_to_simplified_dict :: "ConfluenceUser \<Rightarrow> (string \<times> pyval) list" where
  "ConfluenceUser_to_simplified_dict self =
     [(''display_name'', PStr (display_name self)),
      (''username'', opt_str (username self)),
      (''email'', opt_str (email self)),
      (''profile_picture'', opt_str (profile_picture self))]"

section \<open>ConfluenceAttachment\<close>

record ConfluenceAttachment =
  id' :: "string option"
  type' :: "string option"
  status :: "string option"
  title :: "string option"
  media_type :: "string option"
  file_size :: "int option"

definition ConfluenceAttachment_default :: ConfluenceAttachment where
  "ConfluenceAttachment_default =
     \<lparr>id' = None, type' = None, status = None, title = None, media_type = None,
      file_size = None\<rparr>"

definition ConfluenceAttachment_init ::
  "pydantic \<Rightarrow> pyval \<Rightarrow> pyval \<Rightarrow> pyval \<Rightarrow> pyval \<Rightarrow> pyval \<Rightarrow> pyval
     \<Rightarrow> error + ConfluenceAttachment" where
  \<comment> \<open>\<open>cls(id=..., type=..., status=..., title=..., media_type=..., file_size=...)\<close>.\<close>
  "ConfluenceAttachment_init cfg i t s ti m f =
     then_do (validate_opt_str cfg i) (\<lambda>i'.
     then_do (validate_opt_str cfg t) (\<lambda>t'.
     then_do (validate_opt_str cfg s) (\<lambda>s'.
     then_do (validate_opt_str cfg ti) (\<lambda>ti'.
     then_do (validate_opt_str cfg m) (\<lambda>m'.
     then_do (validate_opt_int cfg f) (\<lambda>f'.
       Inr \<lparr>id' = i', type' = t', status = s', title = ti', media_type = m',
            file_size = f'\<rparr>))))))"

definition ConfluenceAttachment_from_api_response ::
  "pydantic \<Rightarrow> pyval \<Rightarrow> (string \<times> pyval) list \<Rightarrow> error + ConfluenceAttachment" where
  \<comment> \<open>The arguments of \<open>cls(...)\<close> are evaluated in their order, then the constructor runs.\<close>
  "ConfluenceAttachment_from_api_response cfg data kwargs =
     (if \<not> truthy data then Inr ConfluenceAttachment_default
      else
        then_do (py_get data ''id'' PNone) (\<lambda>i.
        then_do (py_get data ''type'' PNone) (\<lambda>t.
        then_do (py_get data ''status'' PNone) (\<lambda>s.
        then_do (py_get data ''title'' PNone) (\<lambda>ti.
        then_do (py_get data ''extensions'' (PDict [])) (\<lambda>ext1.
        then_do (py_get ext1 ''mediaType'' PNone) (\<lambda>m.
        then_do (py_get data ''extensions'' (PDict [])) (\<lambda>ext2.
        then_do (py_get ext2 ''fileSize'' PNone) (\<lambda>f.
          ConfluenceAttachment_init cfg i t s ti m f)))))))))"

definition ConfluenceAttachment_to_simplified_dict ::
  "ConfluenceAttachment \<Rightarrow> (string \<times> pyval) list" where
  "ConfluenceAttachment_to_simplified_dict self =
     [(''id'', opt_str (id' self)),
      (''type'', opt_str (type' self)),
      (''status'', opt_str (status self)),
      (''title'', opt_str (title self)),
      (''media_type'', opt_str (media_type self)),
      (''file_size'', opt_int (file_size self))]"

section \<open>Payloads with the upstream types\<close>

text \<open>
  The payloads on which no step of the construction raises: every value that is present
  has the type the record declares for its field, or is \<open>None\<close> where a later step
  accepts \<open>None\<close>.
\<close>

fun is_str :: "pyval \<Rightarrow> bool" where
  "is_str (PStr s) = True"
| "is_str _ = False"

fun is_opt_str :: "pyval \<Rightarrow> bool" where
  "is_opt_str PNone = True"
| "is_opt_str (PStr s) = True"
| "is_opt_str _ = False"

fun is_opt_int :: "pyval \<Rightarrow> bool" where
  "is_opt_int PNone = True"
| "is_opt_int (PInt i) = True"
| "is_opt_int _ = False"

fun pic_ok :: "pyval \<Rightarrow> bool" where
  \<comment> \<open>\<open>profilePicture\<close>: a mapping whose \<open>path\<close> is a string or \<open>None\<close>, or a falsy value.\<close>
  "pic_ok (PDict p) = is_opt_str (dict_get p ''path'' PNone)"
| "pic_ok v = (\<not> truthy v)"

fun ext_ok :: "pyval \<Rightarrow> bool" where
  \<comment> \<open>\<open>extensions\<close>: a mapping whose \<open>mediaType\<close> is a string or \<open>None\<close> and whose
      \<open>fileSize\<close> is an integer or \<open>None\<close>.\<close>
  "ext_ok (PDict e) =
     (is_opt_str (dict_get e ''mediaType'' PNone) \<and> is_opt_int (dict_get e ''fileSize'' PNone))"
| "ext_ok v = False"

definition user_payload_ok :: "(string \<times> pyval) list \<Rightarrow> bool" where
  \<comment> \<open>\<open>username\<close> and \<open>displayName\<close> are absent or strings; the other scalar fields may
      also be \<open>None\<close>.\<close>
  "user_payload_ok d =
     (is_opt_str (dict_get d ''accountId'' PNone) \<and>
      is_str (dict_get d ''username'' (PStr '''')) \<and>
      is_opt_str (dict_get d ''name'' PNone) \<and>
      is_str (dict_get d ''displayName'' (PStr UNASSIGNED)) \<and>
      is_opt_str (dict_get d ''email'' PNone) \<and>
      is_opt_str (dict_get d ''emailAddress'' PNone) \<and>
      pic_ok (dict_get d ''profilePicture'' PNone) \<and>
      is_opt_str (dict_get d ''locale'' PNone))"

definition attachment_payload_ok :: "(string \<times> pyval) list \<Rightarrow> bool" where
  \<comment> \<open>\<open>extensions\<close> is absent or a mapping.\<close>
  "attachment_payload_ok d =
     (is_opt_str (dict_get d ''id'' PNone) \<and>
      is_opt_str (dict_get d ''type'' PNone) \<and>
      is_opt_str (dict_get d ''status'' PNone) \<and>
      is_opt_str (dict_get d ''title'' PNone) \<and>
      ext_ok (dict_get d ''extensions'' (PDict [])))"

section \<open>Auxiliary lemmas\<close>

lemma then_do_Inl [simp]: "then_do (Inl e) f = Inl e"
  by (simp add: then_do_def)

lemma then_do_Inr [simp]: "then_do (Inr x) f = f x"
  by (simp add: then_do_def)

lemma then_do_eq_Inr: "then_do m f = Inr y \<longleftrightarrow> (\<exists>x. m = Inr x \<and> f x = Inr y)"
  by (cases m) simp_all

lemma validate_opt_str_opt_str [simp]: "validate_opt_str cfg (opt_str x) = Inr x"
  by (cases x) simp_all

lemma validate_opt_int_opt_int [simp]: "validate_opt_int cfg (opt_int x) = Inr x"
  by (cases x) simp_all

lemma is_opt_strE: "is_opt_str v \<Longrightarrow> \<exists>x. v = opt_str x"
  by (cases v) (auto intro: exI [of _ None] exI [of _ "Some _"])

lemma is_opt_intE: "is_opt_int v \<Longrightarrow> \<exists>x. v = opt_int x"
  by (cases v) (auto intro: exI [of _ None] exI [of _ "Some _"])

lemma is_strE: "is_str v \<Longrightarrow> \<exists>s. v = PStr s"
  by (cases v) simp_all

lemma ConfluenceUser_init_Inr:
  "ConfluenceUser_init cfg a u d e p act l = Inr r \<longleftrightarrow>
     validate_opt_str cfg a = Inr (account_id r) \<and>
     validate_opt_str cfg u = Inr (username r) \<and>
     validate_str cfg d = Inr (display_name r) \<and>
     validate_opt_str cfg e = Inr (email r) \<and>
     validate_opt_str cfg p = Inr (profile_picture r) \<and>
     is_active r = act \<and>
     validate_opt_str cfg l = Inr (locale' r)"
  by (cases r) (auto simp: ConfluenceUser_init_def then_do_eq_Inr)

lemma user_from_dict:
  assumes "d \<noteq> []"
  shows "ConfluenceUser_from_api_response cfg (PDict d) kwargs = Inr r \<longleftrightarrow>
     (\<exists>pp e. profile_pic_of d = Inr pp \<and> email_of d = Inr e \<and>
        validate_opt_str cfg (dict_get d ''accountId'' PNone) = Inr (account_id r) \<and>
        validate_opt_str cfg (username_of d) = Inr (username r) \<and>
        validate_str cfg (dict_get d ''displayName'' (PStr UNASSIGNED)) = Inr (display_name r) \<and>
        validate_opt_str cfg e = Inr (email r) \<and>
        validate_opt_str cfg pp = Inr (profile_picture r) \<and>
        is_active r = (dict_get d ''accountStatus'' PNone = PStr ''active'') \<and>
        validate_opt_str cfg (dict_get d ''locale'' PNone) = Inr (locale' r))"
  using assms
  by (simp add: ConfluenceUser_from_api_response_def then_do_eq_Inr ConfluenceUser_init_Inr)

lemma user_from_empty:
  "ConfluenceUser_from_api_response cfg (PDict []) kwargs = Inr ConfluenceUser_default"
  by (simp add: ConfluenceUser_from_api_response_def)

lemma dict_get_eq_iff:
  "v \<noteq> dflt \<Longrightarrow> dict_get d k dflt = v \<longleftrightarrow> map_of d k = Some v"
  by (auto simp: dict_get_def split: option.splits)

lemma truthy_opt_str: "truthy (opt_str x) \<longleftrightarrow> x \<noteq> None \<and> x \<noteq> Some []"
  by (cases x) simp_all

lemma dict_get_str_opt:
  "is_str (dict_get d k (PStr s0)) \<Longrightarrow> is_opt_str (dict_get d k PNone)"
  by (cases "dict_get d k PNone") (auto simp: dict_get_def split: option.splits)

lemma profile_pic_of_ok:
  assumes "pic_ok (dict_get d ''profilePicture'' PNone)"
  shows "\<exists>p. profile_pic_of d = Inr (opt_str p)"
proof (cases "dict_get d ''profilePicture'' PNone")
  case (PDict p)
  with assms obtain x where "dict_get p ''path'' PNone = opt_str x"
    by (auto dest: is_opt_strE)
  with PDict show ?thesis
    by (auto simp: profile_pic_of_def intro: exI [of _ None])
qed (use assms in \<open>auto simp: profile_pic_of_def intro: exI [of _ None]\<close>)

lemma email_of_str:
  assumes "dict_get d ''email'' PNone = opt_str e"
    and "dict_get d ''emailAddress'' PNone = opt_str ea"
    and "dict_get d ''username'' (PStr '''') = PStr un"
  shows "email_of d = Inr (opt_str
     (if e \<noteq> None \<and> e \<noteq> Some [] then e
      else if ea \<noteq> None \<and> ea \<noteq> Some [] then ea
      else if CHR ''@'' \<in> set un then Some un
      else ea))"
  using assms by (auto simp: email_of_def py_or_def truthy_opt_str Let_def)

lemma username_of_str:
  assumes "dict_get d ''username'' PNone = opt_str u"
    and "dict_get d ''name'' PNone = opt_str n"
  shows "username_of d = opt_str (if u \<noteq> None \<and> u \<noteq> Some [] then u else n)"
  using assms by (simp add: username_of_def py_or_def truthy_opt_str)

lemma user_payload_ok_returns:
  assumes "user_payload_ok d"
  shows "\<exists>r. ConfluenceUser_from_api_response cfg (PDict d) kwargs = Inr r"
proof (cases "d = []")
  case True
  then show ?thesis by (simp add: user_from_empty)
next
  case False
  from assms obtain a un n s e ea l where
    a: "dict_get d ''accountId'' PNone = opt_str a" and
    un: "dict_get d ''username'' (PStr '''') = PStr un" and
    n: "dict_get d ''name'' PNone = opt_str n" and
    s: "dict_get d ''displayName'' (PStr UNASSIGNED) = PStr s" and
    e: "dict_get d ''email'' PNone = opt_str e" and
    ea: "dict_get d ''emailAddress'' PNone = opt_str ea" and
    l: "dict_get d ''locale'' PNone = opt_str l"
    unfolding user_payload_ok_def by (metis is_opt_strE is_strE)
  from assms have "is_opt_str (dict_get d ''username'' PNone)"
    unfolding user_payload_ok_def by (blast intro: dict_get_str_opt)
  then obtain u where u: "dict_get d ''username'' PNone = opt_str u"
    by (auto dest: is_opt_strE)
  from assms obtain p where p: "profile_pic_of d = Inr (opt_str p)"
    unfolding user_payload_ok_def by (blast dest: profile_pic_of_ok)
  show ?thesis
    using False
    by (simp add: ConfluenceUser_from_api_response_def ConfluenceUser_init_def p
        email_of_str [OF e ea un] username_of_str [OF u n] a s l)
qed

lemma user_from_None:
  "ConfluenceUser_from_api_response cfg PNone kwargs = Inr ConfluenceUser_default"
  by (simp add: ConfluenceUser_from_api_response_def)

lemma ConfluenceAttachment_init_Inr:
  "ConfluenceAttachment_init cfg i t s ti m f = Inr a \<longleftrightarrow>
     validate_opt_str cfg i = Inr (id' a) \<and>
     validate_opt_str cfg t = Inr (type' a) \<and>
     validate_opt_str cfg s = Inr (status a) \<and>
     validate_opt_str cfg ti = Inr (title a) \<and>
     validate_opt_str cfg m = Inr (media_type a) \<and>
     validate_opt_int cfg f = Inr (file_size a)"
  by (cases a) (auto simp: ConfluenceAttachment_init_def then_do_eq_Inr)

lemma attachment_from_empty:
  "ConfluenceAttachment_from_api_response cfg (PDict []) kwargs = Inr ConfluenceAttachment_default"
  "ConfluenceAttachment_from_api_response cfg PNone kwargs = Inr ConfluenceAttachment_default"
  by (simp_all add: ConfluenceAttachment_from_api_response_def)

lemma attachment_from_dict:
  assumes "d \<noteq> []" and "dict_get d ''extensions'' (PDict []) = PDict e"
  shows "ConfluenceAttachment_from_api_response cfg (PDict d) kwargs =
     ConfluenceAttachment_init cfg (dict_get d ''id'' PNone) (dict_get d ''type'' PNone)
       (dict_get d ''status'' PNone) (dict_get d ''title'' PNone)
       (dict_get e ''mediaType'' PNone) (dict_get e ''fileSize'' PNone)"
  using assms by (simp add: ConfluenceAttachment_from_api_response_def)

lemma ext_okD:
  assumes "ext_ok v"
  shows "\<exists>e m f. v = PDict e \<and> dict_get e ''mediaType'' PNone = opt_str m \<and>
    dict_get e ''fileSize'' PNone = opt_int f"
  using assms by (cases v) (auto dest!: is_opt_strE is_opt_intE)

lemma attachment_payload_ok_returns:
  assumes "attachment_payload_ok d"
  shows "\<exists>a. ConfluenceAttachment_from_api_response cfg (PDict d) kwargs = Inr a"
proof (cases "d = []")
  case True
  then show ?thesis by (simp add: attachment_from_empty)
next
  case False
  from assms obtain i t s ti where
    flds: "dict_get d ''id'' PNone = opt_str i" "dict_get d ''type'' PNone = opt_str t"
      "dict_get d ''status'' PNone = opt_str s" "dict_get d ''title'' PNone = opt_str ti"
    unfolding attachment_payload_ok_def by (metis is_opt_strE)
  from assms have "ext_ok (dict_get d ''extensions'' (PDict []))"
    by (simp add: attachment_payload_ok_def)
  then obtain e m f where ext: "dict_get d ''extensions'' (PDict []) = PDict e"
    and sub: "dict_get e ''mediaType'' PNone = opt_str m" "dict_get e ''fileSize'' PNone = opt_int f"
    by (blast dest: ext_okD)
  show ?thesis
    by (simp add: attachment_from_dict [OF False ext] ConfluenceAttachment_init_def flds sub)
qed

lemmas user_eval =
  ConfluenceUser_from_api_response_def ConfluenceUser_init_def ConfluenceUser_default_def
  profile_pic_of_def email_of_def username_of_def dict_get_def py_or_def UNASSIGNED_def
  strict_def reject_def Let_def

lemmas attachment_eval =
  ConfluenceAttachment_from_api_response_def ConfluenceAttachment_init_def
  ConfluenceAttachment_default_def

lemmas payload_eval =
  user_payload_ok_def attachment_payload_ok_def

lemma opt_str_inject [simp]: "opt_str x = opt_str y \<longleftrightarrow> x = y"
  by (cases x; cases y) simp_all

lemma opt_int_inject [simp]: "opt_int x = opt_int y \<longleftrightarrow> x = y"
  by (cases x; cases y) simp_all

lemma attachment_to_simplified_dict_inj:
  "ConfluenceAttachment_to_simplified_dict b = ConfluenceAttachment_to_simplified_dict a
     \<Longrightarrow> b = a"
  by (cases a, cases b) (simp add: ConfluenceAttachment_to_simplified_dict_def)

section \<open>The claims\<close>

text \<open>
  C1 (amended). For every raw user mapping on which \<open>from_api_response\<close> returns a
  record, \<open>is_active\<close> is true if and only if the mapping is empty (the record is then
  the default one, whose \<open>is_active\<close> is true) or its \<open>accountStatus\<close> is exactly the
  string \<open>active\<close>. For a non-empty mapping any other value, and an absent field, give
  false.
\<close>

theorem C1_is_active:
  assumes "ConfluenceUser_from_api_response cfg (PDict d) kwargs = Inr r"
  shows "is_active r \<longleftrightarrow> d = [] \<or> map_of d ''accountStatus'' = Some (PStr ''active'')"
proof (cases "d = []")
  case True
  with assms have "r = ConfluenceUser_default"
    by (simp add: user_from_empty)
  with True show ?thesis
    by (simp add: ConfluenceUser_default_def)
next
  case False
  with assms have "is_active r = (dict_get d ''accountStatus'' PNone = PStr ''active'')"
    by (auto simp: user_from_dict)
  with False show ?thesis
    by (simp add: dict_get_eq_iff)
qed

theorem C1_is_active_witness:
  "ConfluenceUser_from_api_response strict
     (PDict [(''accountId'', PStr ''123''), (''accountStatus'', PStr ''active''),
             (''email'', PStr ''j@x.com'')]) []
   = Inr \<lparr>account_id = Some ''123'', username = None, display_name = ''Unassigned'',
          email = Some ''j@x.com'', profile_picture = None, is_active = True,
          locale' = None\<rparr>
   \<and> is_active \<lparr>account_id = Some ''123'', username = None, display_name = ''Unassigned'',
          email = Some ''j@x.com'', profile_picture = None, is_active = True,
          locale' = None\<rparr>"
proof -
  have h: "ConfluenceUser_from_api_response strict
     (PDict [(''accountId'', PStr ''123''), (''accountStatus'', PStr ''active''),
             (''email'', PStr ''j@x.com'')]) []
   = Inr \<lparr>account_id = Some ''123'', username = None, display_name = ''Unassigned'',
          email = Some ''j@x.com'', profile_picture = None, is_active = True,
          locale' = None\<rparr>"
    by (simp add: ConfluenceUser_from_api_response_def ConfluenceUser_init_def
        profile_pic_of_def email_of_def username_of_def dict_get_def py_or_def UNASSIGNED_def)
  show ?thesis using h C1_is_active [OF h] by simp
qed

theorem C1_counterexample:
  "ConfluenceUser_from_api_response strict (PDict []) []
   = Inr \<lparr>account_id = None, username = None, display_name = ''Unassigned'', email = None,
          profile_picture = None, is_active = True, locale' = None\<rparr>
   \<and> map_of ([] :: (string \<times> pyval) list) ''accountStatus'' \<noteq> Some (PStr ''active'')"
  by (simp add: ConfluenceUser_from_api_response_def ConfluenceUser_default_def UNASSIGNED_def)

text \<open>
  C2 (amended). On every raw mapping, whether empty, partial or complete, in which each
  value that is present has the type the record declares for it, both
  \<open>from_api_response\<close> functions return a record: for a user, \<open>username\<close> and
  \<open>displayName\<close> are strings, \<open>accountId\<close>, \<open>name\<close>, \<open>email\<close>, \<open>emailAddress\<close> and
  \<open>locale\<close> are strings or \<open>None\<close>, and \<open>profilePicture\<close> is falsy or a mapping whose
  \<open>path\<close> is a string or \<open>None\<close>; for an attachment, \<open>id\<close>, \<open>type\<close>, \<open>status\<close> and
  \<open>title\<close> are strings or \<open>None\<close> and \<open>extensions\<close> is absent or a mapping whose
  \<open>mediaType\<close> is a string or \<open>None\<close> and whose \<open>fileSize\<close> is an integer or \<open>None\<close>.
\<close>

theorem C2_returns_record:
  assumes "user_payload_ok d" and "attachment_payload_ok d'"
  shows "(\<exists>r. ConfluenceUser_from_api_response cfg (PDict d) kwargs = Inr r) \<and>
         (\<exists>a. ConfluenceAttachment_from_api_response cfg (PDict d') kwargs' = Inr a)"
  using assms by (simp add: user_payload_ok_returns attachment_payload_ok_returns)

theorem C2_returns_record_witness:
  "user_payload_ok [(''displayName'', PStr ''Jane Doe''),
      (''profilePicture'', PDict [(''path'', PStr ''/pic.png'')])] \<and>
   attachment_payload_ok [(''id'', PStr ''att1''), (''title'', PNone),
      (''extensions'', PDict [(''fileSize'', PInt 2048)])] \<and>
   (\<exists>r. ConfluenceUser_from_api_response strict
           (PDict [(''displayName'', PStr ''Jane Doe''),
      (''profilePicture'', PDict [(''path'', PStr ''/pic.png'')])]) []
         = Inr r) \<and>
   (\<exists>a. ConfluenceAttachment_from_api_response strict
           (PDict [(''id'', PStr ''att1''), (''title'', PNone),
      (''extensions'', PDict [(''fileSize'', PInt 2048)])]) [] = Inr a)"
proof -
  have h1: "user_payload_ok [(''displayName'', PStr ''Jane Doe''),
      (''profilePicture'', PDict [(''path'', PStr ''/pic.png'')])]"
    by (simp add: payload_eval dict_get_def UNASSIGNED_def)
  have h2: "attachment_payload_ok [(''id'', PStr ''att1''), (''title'', PNone),
      (''extensions'', PDict [(''fileSize'', PInt 2048)])]"
    by (simp add: payload_eval dict_get_def UNASSIGNED_def)
  show ?thesis
    using h1 h2 C2_returns_record [OF h1 h2, of strict "[]" "[]"] by simp
qed

theorem C2_counterexample:
  "ConfluenceUser_from_api_response strict (PDict [(''profilePicture'', PStr ''abc'')]) []
     = Inl AttributeError \<and>
   ConfluenceAttachment_from_api_response strict (PDict [(''extensions'', PNone)]) []
     = Inl AttributeError"
  by (simp add: user_eval attachment_eval)

text \<open>
  C3 (amended). For every raw user mapping on which \<open>from_api_response\<close> returns a record
  and whose \<open>email\<close> and \<open>emailAddress\<close> are strings or \<open>None\<close> and whose \<open>username\<close>
  is a string where present, the first match wins: \<open>email\<close> is the raw \<open>email\<close> if that
  is non-empty (whatever \<open>emailAddress\<close> is), else the raw \<open>emailAddress\<close> if that is
  non-empty, else the raw \<open>username\<close> if it contains \<open>@\<close>; otherwise it is what
  \<open>emailAddress\<close> holds, the empty string when that key is present with the empty
  string, and absent in every other case.
\<close>

theorem C3_email:
  assumes "ConfluenceUser_from_api_response cfg (PDict d) kwargs = Inr r"
    and "dict_get d ''email'' PNone = opt_str e"
    and "dict_get d ''emailAddress'' PNone = opt_str ea"
    and "dict_get d ''username'' (PStr '''') = PStr un"
  shows "email r =
     (if e \<noteq> None \<and> e \<noteq> Some [] then e
      else if ea \<noteq> None \<and> ea \<noteq> Some [] then ea
      else if CHR ''@'' \<in> set un then Some un
      else ea)"
proof (cases "d = []")
  case True
  with assms(1) have "r = ConfluenceUser_default"
    by (simp add: user_from_empty)
  moreover from True assms(2-4) have "e = None" "ea = None" "un = []"
    by (cases e; cases ea; simp add: dict_get_def)+
  ultimately show ?thesis
    by (simp add: ConfluenceUser_default_def)
next
  case False
  define x where "x =
     (if e \<noteq> None \<and> e \<noteq> Some [] then e
      else if ea \<noteq> None \<and> ea \<noteq> Some [] then ea
      else if CHR ''@'' \<in> set un then Some un
      else ea)"
  have "email_of d = Inr (opt_str x)"
    unfolding x_def by (rule email_of_str [OF assms(2-4)])
  moreover from False assms(1) obtain e0 where
    "email_of d = Inr e0" "validate_opt_str cfg e0 = Inr (email r)"
    by (auto simp: user_from_dict)
  ultimately have "email r = x"
    by simp
  then show ?thesis
    by (simp only: x_def)
qed

theorem C3_email_witness:
  "ConfluenceUser_from_api_response strict
     (PDict [(''displayName'', PStr ''Jane Doe''), (''username'', PStr ''jane@ex.com'')]) []
   = Inr \<lparr>account_id = None, username = Some ''jane@ex.com'', display_name = ''Jane Doe'',
          email = Some ''jane@ex.com'', profile_picture = None, is_active = False,
          locale' = None\<rparr>
   \<and> dict_get [(''displayName'', PStr ''Jane Doe''), (''username'', PStr ''jane@ex.com'')]
        ''email'' PNone = opt_str None
   \<and> dict_get [(''displayName'', PStr ''Jane Doe''), (''username'', PStr ''jane@ex.com'')]
        ''emailAddress'' PNone = opt_str None
   \<and> dict_get [(''displayName'', PStr ''Jane Doe''), (''username'', PStr ''jane@ex.com'')]
        ''username'' (PStr '''') = PStr ''jane@ex.com''
   \<and> email \<lparr>account_id = None, username = Some ''jane@ex.com'', display_name = ''Jane Doe'',
          email = Some ''jane@ex.com'', profile_picture = None, is_active = False,
          locale' = None\<rparr> = Some ''jane@ex.com''"
proof -
  let ?d = "[(''displayName'', PStr ''Jane Doe''), (''username'', PStr ''jane@ex.com'')]"
  have h1: "ConfluenceUser_from_api_response strict (PDict ?d) []
     = Inr \<lparr>account_id = None, username = Some ''jane@ex.com'', display_name = ''Jane Doe'',
          email = Some ''jane@ex.com'', profile_picture = None, is_active = False,
          locale' = None\<rparr>"
    by (simp add: user_eval)
  have h2: "dict_get ?d ''email'' PNone = opt_str None"
    by (simp add: dict_get_def)
  have h3: "dict_get ?d ''emailAddress'' PNone = opt_str None"
    by (simp add: dict_get_def)
  have h4: "dict_get ?d ''username'' (PStr '''') = PStr ''jane@ex.com''"
    by (simp add: dict_get_def)
  show ?thesis
    using h1 h2 h3 h4 C3_email [OF h1 h2 h3 h4] by simp
qed

theorem C3_counterexample:
  "ConfluenceUser_from_api_response strict (PDict [(''emailAddress'', PStr '''')]) []
   = Inr \<lparr>account_id = None, username = None, display_name = ''Unassigned'',
          email = Some '''', profile_picture = None, is_active = False, locale' = None\<rparr>"
  by (simp add: user_eval)

text \<open>
  C4 (amended). For every raw user mapping on which \<open>from_api_response\<close> returns a record
  and whose \<open>username\<close> and \<open>name\<close> are strings or \<open>None\<close>, the \<open>username\<close> field is
  the raw \<open>username\<close> whenever that is a non-empty string; else (the key is absent, or
  its value is \<open>None\<close> or the empty string) it is the raw \<open>name\<close> whenever that key is
  present with a string, the empty string included; else it is absent.
\<close>

theorem C4_username:
  assumes "ConfluenceUser_from_api_response cfg (PDict d) kwargs = Inr r"
    and "dict_get d ''username'' PNone = opt_str u"
    and "dict_get d ''name'' PNone = opt_str n"
  shows "username r = (if u \<noteq> None \<and> u \<noteq> Some [] then u else n)"
proof (cases "d = []")
  case True
  with assms(1) have "r = ConfluenceUser_default"
    by (simp add: user_from_empty)
  moreover from True assms(2,3) have "u = None" "n = None"
    by (cases u; cases n; simp add: dict_get_def)+
  ultimately show ?thesis
    by (simp add: ConfluenceUser_default_def)
next
  case False
  define x where "x = (if u \<noteq> None \<and> u \<noteq> Some [] then u else n)"
  have "username_of d = opt_str x"
    unfolding x_def by (rule username_of_str [OF assms(2,3)])
  moreover from False assms(1) have "validate_opt_str cfg (username_of d) = Inr (username r)"
    by (auto simp: user_from_dict)
  ultimately have "username r = x"
    by simp
  then show ?thesis
    by (simp only: x_def)
qed

theorem C4_username_witness:
  "ConfluenceUser_from_api_response strict
     (PDict [(''username'', PStr ''jdoe''), (''name'', PStr ''bob'')]) []
   = Inr \<lparr>account_id = None, username = Some ''jdoe'', display_name = ''Unassigned'',
          email = None, profile_picture = None, is_active = False, locale' = None\<rparr>
   \<and> dict_get [(''username'', PStr ''jdoe''), (''name'', PStr ''bob'')] ''username'' PNone
       = opt_str (Some ''jdoe'')
   \<and> dict_get [(''username'', PStr ''jdoe''), (''name'', PStr ''bob'')] ''name'' PNone
       = opt_str (Some ''bob'')
   \<and> username \<lparr>account_id = None, username = Some ''jdoe'', display_name = ''Unassigned'',
          email = None, profile_picture = None, is_active = False, locale' = None\<rparr>
       = Some ''jdoe''"
proof -
  let ?d = "[(''username'', PStr ''jdoe''), (''name'', PStr ''bob'')]"
  have h1: "ConfluenceUser_from_api_response strict (PDict ?d) []
     = Inr \<lparr>account_id = None, username = Some ''jdoe'', display_name = ''Unassigned'',
          email = None, profile_picture = None, is_active = False, locale' = None\<rparr>"
    by (simp add: user_eval)
  have h2: "dict_get ?d ''username'' PNone = opt_str (Some ''jdoe'')"
    by (simp add: dict_get_def)
  have h3: "dict_get ?d ''name'' PNone = opt_str (Some ''bob'')"
    by (simp add: dict_get_def)
  show ?thesis
    using h1 h2 h3 C4_username [OF h1 h2 h3] by simp
qed

theorem C4_counterexample:
  "ConfluenceUser_from_api_response strict
     (PDict [(''username'', PStr ''''), (''name'', PStr ''bob'')]) []
   = Inr \<lparr>account_id = None, username = Some ''bob'', display_name = ''Unassigned'',
          email = None, profile_picture = None, is_active = False, locale' = None\<rparr>"
  by (simp add: user_eval)

text \<open>
  C5. On the empty mapping and on an absent one (\<open>None\<close>),
  \<open>ConfluenceUser.from_api_response\<close> returns the record with \<open>account_id\<close>,
  \<open>username\<close>, \<open>email\<close>, \<open>profile_picture\<close> and \<open>locale\<close> absent, \<open>display_name\<close> the
  sentinel and \<open>is_active\<close> true, and \<open>ConfluenceAttachment.from_api_response\<close> returns
  the record with all six fields absent.
\<close>

theorem C5_defaults:
  "ConfluenceUser_from_api_response cfg (PDict []) kwargs
     = Inr \<lparr>account_id = None, username = None, display_name = UNASSIGNED, email = None,
            profile_picture = None, is_active = True, locale' = None\<rparr> \<and>
   ConfluenceUser_from_api_response cfg PNone kwargs
     = Inr \<lparr>account_id = None, username = None, display_name = UNASSIGNED, email = None,
            profile_picture = None, is_active = True, locale' = None\<rparr> \<and>
   ConfluenceAttachment_from_api_response cfg (PDict []) kwargs
     = Inr \<lparr>id' = None, type' = None, status = None, title = None, media_type = None,
            file_size = None\<rparr> \<and>
   ConfluenceAttachment_from_api_response cfg PNone kwargs
     = Inr \<lparr>id' = None, type' = None, status = None, title = None, media_type = None,
            file_size = None\<rparr>"
  by (simp add: user_from_empty user_from_None attachment_from_empty
      ConfluenceUser_default_def ConfluenceAttachment_default_def)

text \<open>
  C6. For every user record, \<open>to_simplified_dict\<close> returns a mapping whose keys are
  exactly \<open>display_name\<close>, \<open>username\<close>, \<open>email\<close>, \<open>profile_picture\<close>, in that order; the
  keys \<open>account_id\<close>, \<open>is_active\<close> and \<open>locale\<close> are not in it.
\<close>

theorem C6_user_keys:
  "map fst (ConfluenceUser_to_simplified_dict self)
     = [''display_name'', ''username'', ''email'', ''profile_picture''] \<and>
   map_of (ConfluenceUser_to_simplified_dict self) ''account_id'' = None \<and>
   map_of (ConfluenceUser_to_simplified_dict self) ''is_active'' = None \<and>
   map_of (ConfluenceUser_to_simplified_dict self) ''locale'' = None"
  by (simp add: ConfluenceUser_to_simplified_dict_def)

text \<open>
  C7. For every raw attachment mapping on which \<open>from_api_response\<close> returns a record,
  \<open>to_simplified_dict\<close> of that record has exactly the six keys \<open>id\<close>, \<open>type\<close>,
  \<open>status\<close>, \<open>title\<close>, \<open>media_type\<close>, \<open>file_size\<close>, the value of each key is the
  corresponding field of the record, and no field is hidden: a record with the same
  output is the same record.
\<close>

theorem C7_attachment_round_trip:
  assumes "ConfluenceAttachment_from_api_response cfg data kwargs = Inr a"
  shows "map fst (ConfluenceAttachment_to_simplified_dict a)
           = [''id'', ''type'', ''status'', ''title'', ''media_type'', ''file_size''] \<and>
         map snd (ConfluenceAttachment_to_simplified_dict a)
           = [opt_str (id' a), opt_str (type' a), opt_str (status a), opt_str (title a),
              opt_str (media_type a), opt_int (file_size a)] \<and>
         (\<forall>b. ConfluenceAttachment_to_simplified_dict b = ConfluenceAttachment_to_simplified_dict a
            \<longrightarrow> b = a)"
  by (auto simp: ConfluenceAttachment_to_simplified_dict_def
      dest: attachment_to_simplified_dict_inj)

theorem C7_attachment_round_trip_witness:
  "ConfluenceAttachment_from_api_response strict
     (PDict [(''extensions'', PDict [(''mediaType'', PStr ''image/png''), (''fileSize'', PInt 2048)]),
             (''id'', PStr ''att1'')]) []
   = Inr \<lparr>id' = Some ''att1'', type' = None, status = None, title = None,
          media_type = Some ''image/png'', file_size = Some 2048\<rparr>
   \<and> ConfluenceAttachment_to_simplified_dict
        \<lparr>id' = Some ''att1'', type' = None, status = None, title = None,
         media_type = Some ''image/png'', file_size = Some 2048\<rparr>
     = [(''id'', PStr ''att1''), (''type'', PNone), (''status'', PNone), (''title'', PNone),
        (''media_type'', PStr ''image/png''), (''file_size'', PInt 2048)]"
proof -
  have h: "ConfluenceAttachment_from_api_response strict
     (PDict [(''extensions'', PDict [(''mediaType'', PStr ''image/png''), (''fileSize'', PInt 2048)]),
             (''id'', PStr ''att1'')]) []
   = Inr \<lparr>id' = Some ''att1'', type' = None, status = None, title = None,
          media_type = Some ''image/png'', file_size = Some 2048\<rparr>"
    by (simp add: attachment_eval dict_get_def)
  show ?thesis
    using h C7_attachment_round_trip [OF h]
    by (simp add: ConfluenceAttachment_to_simplified_dict_def)
qed

text \<open>
  C8. For every raw user mapping on which \<open>from_api_response\<close> returns a record, the
  \<open>display_name\<close> of the record is a string, never \<open>None\<close>: it is the sentinel when the
  key \<open>displayName\<close> is absent and the raw value when the key is present with a string;
  a raw \<open>None\<close> does not get into the record, since a constructor that rejects \<open>None\<close>
  for a \<open>str\<close> field returns no record for it. The deprecated accessor \<open>name\<close> returns
  exactly \<open>display_name\<close>, after it has issued its warning.
\<close>

theorem C8_display_name:
  assumes "ConfluenceUser_from_api_response cfg (PDict d) kwargs = Inr r"
  shows "(map_of d ''displayName'' = None \<longrightarrow> display_name r = UNASSIGNED) \<and>
         (\<forall>s. map_of d ''displayName'' = Some (PStr s) \<longrightarrow> display_name r = s) \<and>
         (str_of cfg PNone = None \<longrightarrow> map_of d ''displayName'' \<noteq> Some PNone) \<and>
         map_of (ConfluenceUser_to_simplified_dict r) ''display_name'' = Some (PStr (display_name r)) \<and>
         fst (name r ws) = display_name r \<and>
         snd (name r ws) = ws @ [(''DeprecationWarning'',
             ''The 'name' property is deprecated. Use 'display_name' instead.'')]"
proof (cases "d = []")
  case True
  with assms have "r = ConfluenceUser_default"
    by (simp add: user_from_empty)
  with True show ?thesis
    by (simp add: ConfluenceUser_default_def ConfluenceUser_to_simplified_dict_def name_def)
next
  case False
  with assms have
    "validate_str cfg (dict_get d ''displayName'' (PStr UNASSIGNED)) = Inr (display_name r)"
    by (auto simp: user_from_dict)
  then show ?thesis
    by (auto simp: dict_get_def ConfluenceUser_to_simplified_dict_def name_def
        split: option.splits)
qed

theorem C8_display_name_witness:
  "ConfluenceUser_from_api_response strict (PDict [(''accountId'', PStr ''123'')]) []
     = Inr \<lparr>account_id = Some ''123'', username = None, display_name = ''Unassigned'',
            email = None, profile_picture = None, is_active = False, locale' = None\<rparr> \<and>
   map_of [(''accountId'', PStr ''123'')] ''displayName'' = None \<and>
   display_name \<lparr>account_id = Some ''123'', username = None, display_name = ''Unassigned'',
            email = None, profile_picture = None, is_active = False, locale' = None\<rparr>
     = UNASSIGNED \<and>
   ConfluenceUser_from_api_response strict (PDict [(''displayName'', PStr ''Jane Doe'')]) []
     = Inr \<lparr>account_id = None, username = None, display_name = ''Jane Doe'',
            email = None, profile_picture = None, is_active = False, locale' = None\<rparr> \<and>
   map_of [(''displayName'', PStr ''Jane Doe'')] ''displayName'' = Some (PStr ''Jane Doe'') \<and>
   str_of strict PNone = None \<and>
   fst (name \<lparr>account_id = None, username = None, display_name = ''Jane Doe'',
            email = None, profile_picture = None, is_active = False, locale' = None\<rparr> [])
     = ''Jane Doe''"
proof -
  have h1: "ConfluenceUser_from_api_response strict (PDict [(''accountId'', PStr ''123'')]) []
     = Inr \<lparr>account_id = Some ''123'', username = None, display_name = ''Unassigned'',
            email = None, profile_picture = None, is_active = False, locale' = None\<rparr>"
    by (simp add: user_eval)
  have h2: "ConfluenceUser_from_api_response strict (PDict [(''displayName'', PStr ''Jane Doe'')]) []
     = Inr \<lparr>account_id = None, username = None, display_name = ''Jane Doe'',
            email = None, profile_picture = None, is_active = False, locale' = None\<rparr>"
    by (simp add: user_eval)
  have h3: "str_of strict PNone = None"
    by (simp add: strict_def reject_def)
  show ?thesis
    using h1 h2 h3 C8_display_name [OF h1, of "[]"] C8_display_name [OF h2, of "[]"]
    by simp
qed

text \<open>
  C9. The extra keyword arguments of both \<open>from_api_response\<close> functions are ignored: on
  the same raw mapping, any two sets of keyword arguments give the same result.
\<close>

theorem C9_kwargs_ignored:
  "ConfluenceUser_from_api_response cfg data kwargs
     = ConfluenceUser_from_api_response cfg data kwargs' \<and>
   ConfluenceAttachment_from_api_response cfg data kwargs
     = ConfluenceAttachment_from_api_response cfg data kwargs'"
  by (simp add: ConfluenceUser_from_api_response_def ConfluenceAttachment_from_api_response_def)

text \<open>
  C10. For every non-empty raw user mapping in which the key \<open>displayName\<close> is present
  with a string and on which \<open>from_api_response\<close> returns a record, \<open>display_name\<close> is
  that string verbatim; for the empty string it is the empty string, not the sentinel.
\<close>

theorem C10_display_name_verbatim:
  assumes "ConfluenceUser_from_api_response cfg (PDict d) kwargs = Inr r"
    and "map_of d ''displayName'' = Some (PStr s)"
  shows "display_name r = s \<and> (s = [] \<longrightarrow> display_name r \<noteq> UNASSIGNED)"
proof -
  from assms(2) have "d \<noteq> []"
    by auto
  with assms(1) have
    "validate_str cfg (dict_get d ''displayName'' (PStr UNASSIGNED)) = Inr (display_name r)"
    by (auto simp: user_from_dict)
  with assms(2) show ?thesis
    by (simp add: dict_get_def UNASSIGNED_def)
qed

theorem C10_display_name_verbatim_witness:
  "ConfluenceUser_from_api_response strict
     (PDict [(''displayName'', PStr ''''), (''accountId'', PStr ''123'')]) []
     = Inr \<lparr>account_id = Some ''123'', username = None, display_name = '''',
            email = None, profile_picture = None, is_active = False, locale' = None\<rparr> \<and>
   map_of [(''displayName'', PStr ''''), (''accountId'', PStr ''123'')] ''displayName''
     = Some (PStr '''') \<and>
   display_name \<lparr>account_id = Some ''123'', username = None, display_name = '''',
            email = None, profile_picture = None, is_active = False, locale' = None\<rparr>
     \<noteq> UNASSIGNED"
proof -
  have h1: "ConfluenceUser_from_api_response strict
     (PDict [(''displayName'', PStr ''''), (''accountId'', PStr ''123'')]) []
     = Inr \<lparr>account_id = Some ''123'', username = None, display_name = '''',
            email = None, profile_picture = None, is_active = False, locale' = None\<rparr>"
    by (simp add: user_eval)
  have h2: "map_of [(''displayName'', PStr ''''), (''accountId'', PStr ''123'')] ''displayName''
     = Some (PStr '''')"
    by simp
  show ?thesis
    using h1 h2 C10_display_name_verbatim [OF h1 h2] by simp
qed

end
